theory Spec2Isabelle
  imports Main "HOL-Library.Multiset"
begin

section \<open>Values, errors and responses\<close>

text \<open>
  The values that travel between the data-access layer and the handlers are JavaScript
  values (the parameter \<open>data: unknown\<close> of \<open>returnDataOr404\<close>). Numbers are restricted to
  the integers, which is all the identifiers and scores of this service need.
\<close>

datatype jsval =
    JNull
  | JUndefined
  | JBool bool
  | JNum int
  | JStr string
  | JArr "jsval list"
  | JObj "(string \<times> jsval) list"

text \<open>
  A rejected promise carries an error. The driver rejects with a \<open>QueryResultError\<close> when the
  number of rows does not fit the method that issued the query; every other rejection
  comes from the store (connectivity, a constraint, a malformed value).
\<close>

datatype queryResultErrorCode = noData | notEmpty | multiple

datatype error =
    QueryResultError queryResultErrorCode
  | StoreError string

text \<open>
  A response is the call a handler makes on the \<open>response\<close> object:
  \<open>response.send(data)\<close>, \<open>response.sendStatus(code)\<close> or \<open>res.status(code).json(data)\<close>.
\<close>

datatype response =
    Send jsval
  | SendStatus nat
  | StatusJson nat jsval

fun status :: "response \<Rightarrow> nat" where
  "status (Send d) = 200"
| "status (SendStatus c) = c"
| "status (StatusJson c d) = c"

text \<open>
  What Express writes as the body of the response: \<open>send\<close> passes a string on as text and
  an object or an array as JSON, \<open>json\<close> writes its argument as JSON, and \<open>sendStatus\<close>
  writes the message registered for the status code as text. Only what this service
  sends is listed; for the rest the model gives no body (\<open>None\<close>).
\<close>

datatype body = Text string | Json jsval

fun response_body :: "response \<Rightarrow> body option" where
  "response_body (Send (JStr t)) = Some (Text t)"
| "response_body (Send (JArr vs)) = Some (Json (JArr vs))"
| "response_body (Send (JObj kvs)) = Some (Json (JObj kvs))"
| "response_body (Send d) = None"
| "response_body (SendStatus c) = (if c = 404 then Some (Text ''Not Found'') else None)"
| "response_body (StatusJson c d) = Some (Json d)"

section \<open>The store\<close>

text \<open>
  Modelled from the spec: the declarations of the three tables are not part of the
  service's source file. Player has an identifier generated by the store (taken here
  from a sequence, \<open>Player_id_seq\<close>), a name and an email; Game has an identifier;
  PlayerGame holds a game identifier, a player identifier and a score. A table is the
  list of its rows in the store's own order. The constraints a store may declare on the
  tables are not part of the model: a statement the store refuses is a \<open>fault\<close> of the
  environment below.
\<close>

record player =
  player_id :: int
  player_name :: string
  player_email :: string

record game =
  game_id :: int

record playerGame =
  gameID :: int
  playerID :: int
  score :: int

record store =
  Player :: "player list"
  Game :: "game list"
  PlayerGame :: "playerGame list"
  Player_id_seq :: int

text \<open>
  What the service cannot decide by itself is a parameter: how the store reads the text
  of a path parameter as an integer (\<open>None\<close> when it refuses the text), and whether the
  store rejects the \<open>k\<close>-th statement of a request for a reason of its own.
\<close>

record env =
  int4in :: "string \<Rightarrow> int option"
  fault :: "nat \<Rightarrow> error option"

text \<open>
  Modelled from the spec: \<open>PlayerInput\<close> is declared in \<open>player.js\<close>, which is not part of the
  source file; the body of a player request carries a name and an email.
\<close>

record PlayerInput =
  email :: string
  name :: string

record request =
  params_id :: string
  body :: PlayerInput

type_synonym rows = "jsval list"
type_synonym stmt = "store \<Rightarrow> error + rows \<times> store"
type_synonym promise = "(error + jsval) \<times> store"

section \<open>The SQL statements\<close>

definition id_row :: "int \<Rightarrow> jsval" where
  "id_row n = JObj [(''id'', JNum n)]"

definition player_row :: "player \<Rightarrow> jsval" where
  "player_row p =
     JObj [(''id'', JNum (player_id p)), (''name'', JStr (player_name p)),
           (''email'', JStr (player_email p))]"

definition game_row :: "game \<Rightarrow> jsval" where
  "game_row g = JObj [(''id'', JNum (game_id g))]"

definition game_player_row :: "playerGame \<times> player \<Rightarrow> jsval" where
  "game_player_row rp =
     JObj [(''id'', JNum (player_id (snd rp))), (''name'', JStr (player_name (snd rp))),
           (''email'', JStr (player_email (snd rp))), (''score'', JNum (score (fst rp)))]"

text \<open>\<open>SELECT * FROM Player\<close>\<close>

definition select_Player :: "store \<Rightarrow> rows \<times> store" where
  "select_Player s = (map player_row (Player s), s)"

text \<open>\<open>SELECT * FROM Player WHERE id=${id}\<close>\<close>

definition select_Player_by_id :: "int \<Rightarrow> store \<Rightarrow> rows \<times> store" where
  "select_Player_by_id i s =
     (map player_row (filter (\<lambda>p. player_id p = i) (Player s)), s)"

text \<open>
  \<open>UPDATE Player SET email=${body.email}, name=${body.name} WHERE id=${params.id} RETURNING id\<close>:
  the store writes the new version of a row as a new tuple, so in the table's own order
  the updated rows come after the rows the statement left alone.
\<close>

definition update_Player :: "PlayerInput \<Rightarrow> int \<Rightarrow> store \<Rightarrow> rows \<times> store" where
  "update_Player b i s =
     (map (\<lambda>p. id_row (player_id p)) (filter (\<lambda>p. player_id p = i) (Player s)),
      s\<lparr>Player :=
          filter (\<lambda>p. player_id p \<noteq> i) (Player s) @
          map (\<lambda>p. p\<lparr>player_email := email b, player_name := name b\<rparr>)
              (filter (\<lambda>p. player_id p = i) (Player s))\<rparr>)"

text \<open>
  \<open>INSERT INTO Player(email, name) VALUES (${email}, ${name}) RETURNING id\<close>: the statement
  names no identifier, the store takes it from the sequence of the column.
\<close>

definition insert_Player :: "PlayerInput \<Rightarrow> store \<Rightarrow> rows \<times> store" where
  "insert_Player b s =
     ([id_row (Player_id_seq s)],
      s\<lparr>Player := Player s @
           [\<lparr>player_id = Player_id_seq s, player_name = name b, player_email = email b\<rparr>],
        Player_id_seq := Player_id_seq s + 1\<rparr>)"

text \<open>\<open>DELETE FROM PlayerGame WHERE playerID=${id}\<close>\<close>

definition delete_PlayerGame_by_playerID :: "int \<Rightarrow> store \<Rightarrow> rows \<times> store" where
  "delete_PlayerGame_by_playerID i s =
     ([], s\<lparr>PlayerGame := filter (\<lambda>r. playerID r \<noteq> i) (PlayerGame s)\<rparr>)"

text \<open>\<open>DELETE FROM Player WHERE id=${id} RETURNING id\<close>\<close>

definition delete_Player :: "int \<Rightarrow> store \<Rightarrow> rows \<times> store" where
  "delete_Player i s =
     (map (\<lambda>p. id_row (player_id p)) (filter (\<lambda>p. player_id p = i) (Player s)),
      s\<lparr>Player := filter (\<lambda>p. player_id p \<noteq> i) (Player s)\<rparr>)"

text \<open>\<open>SELECT * FROM Game ORDER BY id\<close>\<close>

definition select_Game_order_by_id :: "store \<Rightarrow> rows \<times> store" where
  "select_Game_order_by_id s = (map game_row (sort_key game_id (Game s)), s)"

text \<open>
  \<open>SELECT Player.id, Player.name, Player.email, PlayerGame.score FROM PlayerGame
  JOIN Player ON Player.id = PlayerGame.playerID WHERE PlayerGame.gameID = $1
  ORDER BY PlayerGame.playerID\<close>
\<close>

definition join_PlayerGame_Player :: "store \<Rightarrow> (playerGame \<times> player) list" where
  "join_PlayerGame_Player s =
     concat (map (\<lambda>r. map (\<lambda>p. (r, p)) (filter (\<lambda>p. player_id p = playerID r) (Player s)))
                 (PlayerGame s))"

definition select_game_players :: "int \<Rightarrow> store \<Rightarrow> rows \<times> store" where
  "select_game_players g s =
     (map game_player_row
        (sort_key (\<lambda>rp. playerID (fst rp))
           (filter (\<lambda>rp. gameID (fst rp) = g) (join_PlayerGame_Player s))), s)"

text \<open>\<open>DELETE FROM PlayerGame WHERE gameID=${id}\<close>\<close>

definition delete_PlayerGame_by_gameID :: "int \<Rightarrow> store \<Rightarrow> rows \<times> store" where
  "delete_PlayerGame_by_gameID i s =
     ([], s\<lparr>PlayerGame := filter (\<lambda>r. gameID r \<noteq> i) (PlayerGame s)\<rparr>)"

text \<open>\<open>DELETE FROM Game WHERE id=${id} RETURNING id\<close>\<close>

definition delete_Game :: "int \<Rightarrow> store \<Rightarrow> rows \<times> store" where
  "delete_Game i s =
     (map (\<lambda>g. id_row (game_id g)) (filter (\<lambda>g. game_id g = i) (Game s)),
      s\<lparr>Game := filter (\<lambda>g. game_id g \<noteq> i) (Game s)\<rparr>)"

text \<open>
  A statement whose parameter is the path's \<open>id\<close>: the driver sends the text, the store
  reads it as an integer or rejects the statement.
\<close>

definition with_id :: "env \<Rightarrow> string \<Rightarrow> (int \<Rightarrow> store \<Rightarrow> rows \<times> store) \<Rightarrow> stmt" where
  "with_id e t f s =
     (case int4in e t of
        None \<Rightarrow> Inl (StoreError ''invalid input syntax for type integer'')
      | Some i \<Rightarrow> Inr (f i s))"

definition plain :: "(store \<Rightarrow> rows \<times> store) \<Rightarrow> stmt" where
  "plain f s = Inr (f s)"

section \<open>The database driver\<close>

text \<open>The \<open>k\<close>-th statement of a request runs, unless the store rejects it.\<close>

definition query :: "env \<Rightarrow> nat \<Rightarrow> stmt \<Rightarrow> store \<Rightarrow> error + rows \<times> store" where
  "query e k st s = (case fault e k of Some err \<Rightarrow> Inl err | None \<Rightarrow> st s)"

text \<open>What each method of the driver makes of the rows that came back.\<close>

fun expect_none :: "rows \<Rightarrow> error + jsval" where
  "expect_none [] = Inr JNull"
| "expect_none (r # rs) = Inl (QueryResultError notEmpty)"

fun expect_one :: "rows \<Rightarrow> error + jsval" where
  "expect_one [] = Inl (QueryResultError noData)"
| "expect_one [r] = Inr r"
| "expect_one (r # r' # rs) = Inl (QueryResultError multiple)"

fun expect_oneOrNone :: "rows \<Rightarrow> error + jsval" where
  "expect_oneOrNone [] = Inr JNull"
| "expect_oneOrNone [r] = Inr r"
| "expect_oneOrNone (r # r' # rs) = Inl (QueryResultError multiple)"

definition expect_manyOrNone :: "rows \<Rightarrow> error + jsval" where
  "expect_manyOrNone rs = Inr (JArr rs)"

text \<open>
  A method runs its statement and then looks at the rows: a statement that ran keeps its
  effect on the store even when the method rejects the number of rows.
\<close>

definition db_method :: "(rows \<Rightarrow> error + jsval) \<Rightarrow> env \<Rightarrow> nat \<Rightarrow> stmt \<Rightarrow> store \<Rightarrow> promise" where
  "db_method expect e k st s =
     (case query e k st s of
        Inl err \<Rightarrow> (Inl err, s)
      | Inr (rs, s') \<Rightarrow> (expect rs, s'))"

definition db_none :: "env \<Rightarrow> nat \<Rightarrow> stmt \<Rightarrow> store \<Rightarrow> promise" where
  "db_none = db_method expect_none"

definition db_one :: "env \<Rightarrow> nat \<Rightarrow> stmt \<Rightarrow> store \<Rightarrow> promise" where
  "db_one = db_method expect_one"

definition db_oneOrNone :: "env \<Rightarrow> nat \<Rightarrow> stmt \<Rightarrow> store \<Rightarrow> promise" where
  "db_oneOrNone = db_method expect_oneOrNone"

definition db_manyOrNone :: "env \<Rightarrow> nat \<Rightarrow> stmt \<Rightarrow> store \<Rightarrow> promise" where
  "db_manyOrNone = db_method expect_manyOrNone"

text \<open>\<open>p.then(() => q)\<close> inside a transaction: \<open>q\<close> runs on the store \<open>p\<close> left, if \<open>p\<close> resolved.\<close>

definition and_then :: "(store \<Rightarrow> promise) \<Rightarrow> (store \<Rightarrow> promise) \<Rightarrow> store \<Rightarrow> promise" where
  "and_then p q s =
     (case p s of
        (Inl err, s') \<Rightarrow> (Inl err, s')
      | (Inr d, s') \<Rightarrow> q s')"

text \<open>
  \<open>db.tx(cb)\<close>: the callback's statements are committed when its promise resolves and
  rolled back when it rejects; the transaction settles as the callback did.
\<close>

definition db_tx :: "(store \<Rightarrow> promise) \<Rightarrow> store \<Rightarrow> promise" where
  "db_tx cb s =
     (case cb s of
        (Inl err, s') \<Rightarrow> (Inl err, s)
      | (Inr d, s') \<Rightarrow> (Inr d, s'))"

section \<open>The handlers\<close>

text \<open>The error handler registered after the routes; what it logs is not in the response.\<close>

definition errorHandler :: "error \<Rightarrow> response" where
  "errorHandler err = StatusJson 500 (JObj [(''error'', JStr ''An internal server error occurred'')])"

definition returnDataOr404 :: "jsval \<Rightarrow> response" where
  "returnDataOr404 d = (if d = JNull \<or> d = JUndefined then SendStatus 404 else Send d)"

text \<open>\<open>promise.then(ok).catch(next)\<close>: a rejection goes to the error handler.\<close>

definition then_catch :: "(jsval \<Rightarrow> response) \<Rightarrow> promise \<Rightarrow> response \<times> store" where
  "then_catch ok p =
     (case p of
        (Inl err, s) \<Rightarrow> (errorHandler err, s)
      | (Inr d, s) \<Rightarrow> (ok d, s))"

definition readHello :: "env \<Rightarrow> request \<Rightarrow> store \<Rightarrow> response \<times> store" where
  "readHello e rq s = (Send (JStr ''Hello, CS 262 Monopoly service!''), s)"

definition readPlayers_db :: "env \<Rightarrow> request \<Rightarrow> store \<Rightarrow> promise" where
  "readPlayers_db e rq = db_manyOrNone e 0 (plain select_Player)"

definition readPlayers :: "env \<Rightarrow> request \<Rightarrow> store \<Rightarrow> response \<times> store" where
  "readPlayers e rq s = then_catch Send (readPlayers_db e rq s)"

definition readPlayer_db :: "env \<Rightarrow> request \<Rightarrow> store \<Rightarrow> promise" where
  "readPlayer_db e rq = db_oneOrNone e 0 (with_id e (params_id rq) select_Player_by_id)"

definition readPlayer :: "env \<Rightarrow> request \<Rightarrow> store \<Rightarrow> response \<times> store" where
  "readPlayer e rq s = then_catch returnDataOr404 (readPlayer_db e rq s)"

definition updatePlayer_db :: "env \<Rightarrow> request \<Rightarrow> store \<Rightarrow> promise" where
  "updatePlayer_db e rq =
     db_oneOrNone e 0 (with_id e (params_id rq) (update_Player (body rq)))"

definition updatePlayer :: "env \<Rightarrow> request \<Rightarrow> store \<Rightarrow> response \<times> store" where
  "updatePlayer e rq s = then_catch returnDataOr404 (updatePlayer_db e rq s)"

definition createPlayer_db :: "env \<Rightarrow> request \<Rightarrow> store \<Rightarrow> promise" where
  "createPlayer_db e rq = db_one e 0 (plain (insert_Player (body rq)))"

definition createPlayer :: "env \<Rightarrow> request \<Rightarrow> store \<Rightarrow> response \<times> store" where
  "createPlayer e rq s = then_catch Send (createPlayer_db e rq s)"

definition deletePlayer_db :: "env \<Rightarrow> request \<Rightarrow> store \<Rightarrow> promise" where
  "deletePlayer_db e rq =
     db_tx (and_then
       (db_none e 0 (with_id e (params_id rq) delete_PlayerGame_by_playerID))
       (db_oneOrNone e 1 (with_id e (params_id rq) delete_Player)))"

definition deletePlayer :: "env \<Rightarrow> request \<Rightarrow> store \<Rightarrow> response \<times> store" where
  "deletePlayer e rq s = then_catch returnDataOr404 (deletePlayer_db e rq s)"

definition readGames_db :: "env \<Rightarrow> request \<Rightarrow> store \<Rightarrow> promise" where
  "readGames_db e rq = db_manyOrNone e 0 (plain select_Game_order_by_id)"

definition readGames :: "env \<Rightarrow> request \<Rightarrow> store \<Rightarrow> response \<times> store" where
  "readGames e rq s = then_catch Send (readGames_db e rq s)"

definition readGamePlayers_db :: "env \<Rightarrow> request \<Rightarrow> store \<Rightarrow> promise" where
  "readGamePlayers_db e rq =
     db_manyOrNone e 0 (with_id e (params_id rq) select_game_players)"

definition readGamePlayers :: "env \<Rightarrow> request \<Rightarrow> store \<Rightarrow> response \<times> store" where
  "readGamePlayers e rq s = then_catch Send (readGamePlayers_db e rq s)"

definition deleteGame_db :: "env \<Rightarrow> request \<Rightarrow> store \<Rightarrow> promise" where
  "deleteGame_db e rq =
     db_tx (and_then
       (db_none e 0 (with_id e (params_id rq) delete_PlayerGame_by_gameID))
       (db_oneOrNone e 1 (with_id e (params_id rq) delete_Game)))"

definition deleteGame :: "env \<Rightarrow> request \<Rightarrow> store \<Rightarrow> response \<times> store" where
  "deleteGame e rq s = then_catch returnDataOr404 (deleteGame_db e rq s)"

text \<open>The routing table.\<close>

datatype route =
    GET_root
  | GET_players
  | GET_players_id
  | PUT_players_id
  | POST_players
  | DELETE_players_id
  | GET_games
  | GET_games_id
  | DELETE_games_id

fun router :: "route \<Rightarrow> env \<Rightarrow> request \<Rightarrow> store \<Rightarrow> response \<times> store" where
  "router GET_root = readHello"
| "router GET_players = readPlayers"
| "router GET_players_id = readPlayer"
| "router PUT_players_id = updatePlayer"
| "router POST_players = createPlayer"
| "router DELETE_players_id = deletePlayer"
| "router GET_games = readGames"
| "router GET_games_id = readGamePlayers"
| "router DELETE_games_id = deleteGame"

section \<open>Properties of a store\<close>

text \<open>No PlayerGame row refers to a player or to a game that is not there.\<close>

definition no_orphans :: "store \<Rightarrow> bool" where
  "no_orphans s =
     (\<forall>r \<in> set (PlayerGame s).
        playerID r \<in> set (map player_id (Player s)) \<and>
        gameID r \<in> set (map game_id (Game s)))"

text \<open>The stores the service can reach from a given one, request after request.\<close>

inductive reachable :: "store \<Rightarrow> store \<Rightarrow> bool" for s0 :: store where
  start: "reachable s0 s0"
| request: "reachable s0 s \<Longrightarrow> reachable s0 (snd (router r e rq s))"

section \<open>A small store to run the handlers on\<close>

definition ex_int4in :: "string \<Rightarrow> int option" where
  "ex_int4in t =
     (if t = ''3'' then Some 3 else if t = ''7'' then Some 7 else if t = ''9'' then Some 9
      else None)"

definition ex_env :: env where
  "ex_env = \<lparr>int4in = ex_int4in, fault = (\<lambda>k. None)\<rparr>"

definition ex_env_fault :: "nat \<Rightarrow> env" where
  "ex_env_fault n =
     \<lparr>int4in = ex_int4in,
      fault = (\<lambda>k. if k = n then Some (StoreError ''connection terminated'') else None)\<rparr>"

definition ex_request :: "string \<Rightarrow> request" where
  "ex_request t = \<lparr>params_id = t, body = \<lparr>email = ''eve@x.org'', name = ''Eve''\<rparr>\<rparr>"

definition ex_store :: store where
  "ex_store =
     \<lparr>Player = [\<lparr>player_id = 7, player_name = ''Ann'', player_email = ''ann@x.org''\<rparr>,
                \<lparr>player_id = 8, player_name = ''Bob'', player_email = ''bob@x.org''\<rparr>],
      Game = [\<lparr>game_id = 9\<rparr>, \<lparr>game_id = 7\<rparr>],
      PlayerGame = [\<lparr>gameID = 9, playerID = 8, score = 50\<rparr>,
                    \<lparr>gameID = 9, playerID = 7, score = 20\<rparr>,
                    \<lparr>gameID = 7, playerID = 7, score = 0\<rparr>],
      Player_id_seq = 9\<rparr>"

section \<open>What each data-access call does\<close>

lemma filter_single_holds: "filter P xs = [x] \<Longrightarrow> P x"
  by (induction xs) (auto split: if_splits)

lemma expect_oneOrNone_map:
  "expect_oneOrNone (map f xs) =
     (case xs of [] \<Rightarrow> Inr JNull | [x] \<Rightarrow> Inr (f x) | _ \<Rightarrow> Inl (QueryResultError multiple))"
  by (auto split: list.splits)

lemmas driver_defs =
  db_tx_def and_then_def db_none_def db_one_def db_oneOrNone_def db_manyOrNone_def
  db_method_def query_def with_id_def plain_def expect_manyOrNone_def

lemma deletePlayer_db_eq:
  "deletePlayer_db e rq s =
     (case fault e 0 of
        Some err \<Rightarrow> (Inl err, s)
      | None \<Rightarrow>
         (case int4in e (params_id rq) of
            None \<Rightarrow> (Inl (StoreError ''invalid input syntax for type integer''), s)
          | Some i \<Rightarrow>
             (case fault e 1 of
                Some err \<Rightarrow> (Inl err, s)
              | None \<Rightarrow>
                 (case filter (\<lambda>p. player_id p = i) (Player s) of
                    [] \<Rightarrow> (Inr JNull,
                       s\<lparr>PlayerGame := filter (\<lambda>r. playerID r \<noteq> i) (PlayerGame s),
                         Player := filter (\<lambda>p. player_id p \<noteq> i) (Player s)\<rparr>)
                  | [p] \<Rightarrow> (Inr (id_row i),
                       s\<lparr>PlayerGame := filter (\<lambda>r. playerID r \<noteq> i) (PlayerGame s),
                         Player := filter (\<lambda>p. player_id p \<noteq> i) (Player s)\<rparr>)
                  | p # p' # ps \<Rightarrow> (Inl (QueryResultError multiple), s)))))"
  by (auto simp: deletePlayer_db_def driver_defs delete_PlayerGame_by_playerID_def
      delete_Player_def expect_oneOrNone_map
      split: option.splits list.splits prod.splits sum.splits dest: filter_single_holds)

lemma deleteGame_db_eq:
  "deleteGame_db e rq s =
     (case fault e 0 of
        Some err \<Rightarrow> (Inl err, s)
      | None \<Rightarrow>
         (case int4in e (params_id rq) of
            None \<Rightarrow> (Inl (StoreError ''invalid input syntax for type integer''), s)
          | Some i \<Rightarrow>
             (case fault e 1 of
                Some err \<Rightarrow> (Inl err, s)
              | None \<Rightarrow>
                 (case filter (\<lambda>g. game_id g = i) (Game s) of
                    [] \<Rightarrow> (Inr JNull,
                       s\<lparr>PlayerGame := filter (\<lambda>r. gameID r \<noteq> i) (PlayerGame s),
                         Game := filter (\<lambda>g. game_id g \<noteq> i) (Game s)\<rparr>)
                  | [g] \<Rightarrow> (Inr (id_row i),
                       s\<lparr>PlayerGame := filter (\<lambda>r. gameID r \<noteq> i) (PlayerGame s),
                         Game := filter (\<lambda>g. game_id g \<noteq> i) (Game s)\<rparr>)
                  | g # g' # gs \<Rightarrow> (Inl (QueryResultError multiple), s)))))"
  by (auto simp: deleteGame_db_def driver_defs delete_PlayerGame_by_gameID_def
      delete_Game_def expect_oneOrNone_map
      split: option.splits list.splits prod.splits sum.splits dest: filter_single_holds)

lemma readPlayer_db_eq:
  "readPlayer_db e rq s =
     (case fault e 0 of
        Some err \<Rightarrow> (Inl err, s)
      | None \<Rightarrow>
         (case int4in e (params_id rq) of
            None \<Rightarrow> (Inl (StoreError ''invalid input syntax for type integer''), s)
          | Some i \<Rightarrow>
             (case filter (\<lambda>p. player_id p = i) (Player s) of
                [] \<Rightarrow> (Inr JNull, s)
              | [p] \<Rightarrow> (Inr (player_row p), s)
              | p # p' # ps \<Rightarrow> (Inl (QueryResultError multiple), s))))"
  by (auto simp: readPlayer_db_def driver_defs select_Player_by_id_def expect_oneOrNone_map
      split: option.splits list.splits prod.splits sum.splits)

lemma updatePlayer_db_eq:
  "updatePlayer_db e rq s =
     (case fault e 0 of
        Some err \<Rightarrow> (Inl err, s)
      | None \<Rightarrow>
         (case int4in e (params_id rq) of
            None \<Rightarrow> (Inl (StoreError ''invalid input syntax for type integer''), s)
          | Some i \<Rightarrow>
             (case filter (\<lambda>p. player_id p = i) (Player s) of
                [] \<Rightarrow> Inr JNull
              | [p] \<Rightarrow> Inr (id_row i)
              | p # p' # ps \<Rightarrow> Inl (QueryResultError multiple),
              s\<lparr>Player :=
                  filter (\<lambda>p. player_id p \<noteq> i) (Player s) @
                  map (\<lambda>p. p\<lparr>player_email := email (body rq), player_name := name (body rq)\<rparr>)
                    (filter (\<lambda>p. player_id p = i) (Player s))\<rparr>)))"
  by (auto simp: updatePlayer_db_def driver_defs update_Player_def expect_oneOrNone_map
      split: option.splits list.splits prod.splits sum.splits dest: filter_single_holds)

lemma createPlayer_db_eq:
  "createPlayer_db e rq s =
     (case fault e 0 of
        Some err \<Rightarrow> (Inl err, s)
      | None \<Rightarrow>
         (Inr (id_row (Player_id_seq s)),
          s\<lparr>Player := Player s @
               [\<lparr>player_id = Player_id_seq s, player_name = name (body rq),
                 player_email = email (body rq)\<rparr>],
            Player_id_seq := Player_id_seq s + 1\<rparr>))"
  by (auto simp: createPlayer_db_def driver_defs insert_Player_def
      split: option.splits list.splits prod.splits sum.splits)

lemma readPlayers_db_eq:
  "readPlayers_db e rq s =
     (case fault e 0 of
        Some err \<Rightarrow> (Inl err, s)
      | None \<Rightarrow> (Inr (JArr (map player_row (Player s))), s))"
  by (auto simp: readPlayers_db_def driver_defs select_Player_def
      split: option.splits list.splits prod.splits sum.splits)

lemma readGames_db_eq:
  "readGames_db e rq s =
     (case fault e 0 of
        Some err \<Rightarrow> (Inl err, s)
      | None \<Rightarrow> (Inr (JArr (map game_row (sort_key game_id (Game s)))), s))"
  by (auto simp: readGames_db_def driver_defs select_Game_order_by_id_def
      split: option.splits list.splits prod.splits sum.splits)

lemma readGamePlayers_db_eq:
  "readGamePlayers_db e rq s =
     (case fault e 0 of
        Some err \<Rightarrow> (Inl err, s)
      | None \<Rightarrow>
         (case int4in e (params_id rq) of
            None \<Rightarrow> (Inl (StoreError ''invalid input syntax for type integer''), s)
          | Some g \<Rightarrow>
             (Inr (JArr (map game_player_row
                (sort_key (\<lambda>rp. playerID (fst rp))
                   (filter (\<lambda>rp. gameID (fst rp) = g) (join_PlayerGame_Player s))))), s)))"
  by (auto simp: readGamePlayers_db_def driver_defs select_game_players_def
      split: option.splits list.splits prod.splits sum.splits)

lemmas ex_defs = ex_int4in_def ex_env_def ex_env_fault_def ex_request_def ex_store_def

section \<open>The not-found helper\<close>

text \<open>
  C9 (as amended): the helper answers \<open>sendStatus(404)\<close> to \<open>null\<close> and to \<open>undefined\<close>
  alike, a response of status 404 whose body is the status text \<open>Not Found\<close> and carries
  no data, and it passes every other value to \<open>send\<close> as it is; the handlers for get
  player, update player, delete player and delete game answer with what the helper makes
  of the value their data-access call resolved to.
\<close>

theorem returnDataOr404_null_or_undefined:
  "(d = JNull \<or> d = JUndefined \<longrightarrow>
      returnDataOr404 d = SendStatus 404 \<and> status (returnDataOr404 d) = 404 \<and>
      response_body (returnDataOr404 d) = Some (Text ''Not Found'')) \<and>
   (d \<noteq> JNull \<and> d \<noteq> JUndefined \<longrightarrow> returnDataOr404 d = Send d) \<and>
   (readPlayer_db e rq s = (Inr d, s') \<longrightarrow> readPlayer e rq s = (returnDataOr404 d, s')) \<and>
   (updatePlayer_db e rq s = (Inr d, s') \<longrightarrow> updatePlayer e rq s = (returnDataOr404 d, s')) \<and>
   (deletePlayer_db e rq s = (Inr d, s') \<longrightarrow> deletePlayer e rq s = (returnDataOr404 d, s')) \<and>
   (deleteGame_db e rq s = (Inr d, s') \<longrightarrow> deleteGame e rq s = (returnDataOr404 d, s'))"
  by (auto simp: returnDataOr404_def readPlayer_def updatePlayer_def deletePlayer_def
      deleteGame_def then_catch_def)

text \<open>
  C9 as stated fails: the body of the 404 response is not empty.
\<close>

theorem returnDataOr404_body_not_empty:
  "returnDataOr404 JNull = SendStatus 404 \<and>
   returnDataOr404 JUndefined = SendStatus 404 \<and>
   response_body (returnDataOr404 JNull) = Some (Text ''Not Found'') \<and>
   response_body (returnDataOr404 JNull) \<noteq> Some (Text []) \<and>
   response_body (returnDataOr404 JUndefined) \<noteq> Some (Text [])"
  by (simp add: returnDataOr404_def)

theorem returnDataOr404_null_or_undefined_witness:
  "returnDataOr404 JUndefined = SendStatus 404 \<and>
   returnDataOr404 JNull = SendStatus 404 \<and>
   returnDataOr404 (JNum 0) = Send (JNum 0) \<and>
   returnDataOr404 (JStr []) = Send (JStr []) \<and>
   readPlayer_db ex_env (ex_request ''3'') ex_store = (Inr JNull, ex_store) \<and>
   readPlayer ex_env (ex_request ''3'') ex_store = (SendStatus 404, ex_store) \<and>
   updatePlayer_db ex_env (ex_request ''7'') ex_store =
     (Inr (JObj [(''id'', JNum 7)]),
      ex_store\<lparr>Player :=
        [\<lparr>player_id = 8, player_name = ''Bob'', player_email = ''bob@x.org''\<rparr>,
         \<lparr>player_id = 7, player_name = ''Eve'', player_email = ''eve@x.org''\<rparr>]\<rparr>) \<and>
   fst (updatePlayer ex_env (ex_request ''7'') ex_store) = Send (JObj [(''id'', JNum 7)])"
proof -
  have a: "readPlayer_db ex_env (ex_request ''3'') ex_store = (Inr JNull, ex_store)"
    by (simp add: readPlayer_db_eq ex_defs)
  have b: "updatePlayer_db ex_env (ex_request ''7'') ex_store =
     (Inr (JObj [(''id'', JNum 7)]),
      ex_store\<lparr>Player :=
        [\<lparr>player_id = 8, player_name = ''Bob'', player_email = ''bob@x.org''\<rparr>,
         \<lparr>player_id = 7, player_name = ''Eve'', player_email = ''eve@x.org''\<rparr>]\<rparr>)"
    by (simp add: updatePlayer_db_eq ex_defs id_row_def)
  show ?thesis
    using returnDataOr404_null_or_undefined [of JUndefined]
      returnDataOr404_null_or_undefined [of JNull ex_env "ex_request ''3''" ex_store ex_store]
      returnDataOr404_null_or_undefined [of "JNum 0"]
      returnDataOr404_null_or_undefined [of "JStr []"]
      returnDataOr404_null_or_undefined [of "JObj [(''id'', JNum 7)]" ex_env "ex_request ''7''" ex_store]
      a b
    by simp
qed

lemma expect_one_rejects: "length rs \<noteq> 1 \<Longrightarrow> \<exists>c. expect_one rs = Inl (QueryResultError c)"
  by (cases rs rule: expect_one.cases) simp_all

section \<open>Creating a player\<close>

text \<open>
  C10: the response to POST /players never has status 404. The insert goes through the
  driver's \<open>one\<close>: whenever the statement brings back a number of rows other than one
  (none included), or the store rejects it, the promise rejects and the response is the
  error handler's 500 with its fixed body.
\<close>

theorem createPlayer_never_404:
  "status (fst (createPlayer e rq s)) \<noteq> 404 \<and>
   createPlayer e rq s = then_catch Send (db_one e 0 (plain (insert_Player (body rq))) s) \<and>
   (query e k st s = Inr (rs, s') \<and> length rs \<noteq> 1 \<longrightarrow>
      (\<exists>c. db_one e k st s = (Inl (QueryResultError c), s')) \<and>
      then_catch Send (db_one e k st s) =
        (StatusJson 500 (JObj [(''error'', JStr ''An internal server error occurred'')]), s')) \<and>
   (query e k st s = Inl err \<longrightarrow>
      then_catch Send (db_one e k st s) =
        (StatusJson 500 (JObj [(''error'', JStr ''An internal server error occurred'')]), s))"
proof -
  have "status (fst (createPlayer e rq s)) \<noteq> 404"
    by (simp add: createPlayer_def createPlayer_db_eq then_catch_def errorHandler_def
        split: option.splits)
  moreover have "createPlayer e rq s =
      then_catch Send (db_one e 0 (plain (insert_Player (body rq))) s)"
    by (simp add: createPlayer_def createPlayer_db_def)
  moreover have "(\<exists>c. db_one e k st s = (Inl (QueryResultError c), s')) \<and>
      then_catch Send (db_one e k st s) =
        (StatusJson 500 (JObj [(''error'', JStr ''An internal server error occurred'')]), s')"
    if "query e k st s = Inr (rs, s')" "length rs \<noteq> 1"
    using that expect_one_rejects [of rs]
    by (auto simp: db_one_def db_method_def then_catch_def errorHandler_def)
  moreover have "then_catch Send (db_one e k st s) =
        (StatusJson 500 (JObj [(''error'', JStr ''An internal server error occurred'')]), s)"
    if "query e k st s = Inl err"
    using that by (simp add: db_one_def db_method_def then_catch_def errorHandler_def)
  ultimately show ?thesis by blast
qed

theorem createPlayer_never_404_witness:
  "query ex_env 0 (plain (\<lambda>s. ([], s))) ex_store = Inr ([], ex_store) \<and>
   length ([] :: jsval list) \<noteq> 1 \<and>
   then_catch Send (db_one ex_env 0 (plain (\<lambda>s. ([], s))) ex_store) =
     (StatusJson 500 (JObj [(''error'', JStr ''An internal server error occurred'')]), ex_store) \<and>
   query (ex_env_fault 0) 0 (plain (insert_Player (body (ex_request [])))) ex_store =
     Inl (StoreError ''connection terminated'') \<and>
   createPlayer (ex_env_fault 0) (ex_request []) ex_store =
     (StatusJson 500 (JObj [(''error'', JStr ''An internal server error occurred'')]), ex_store) \<and>
   fst (createPlayer ex_env (ex_request []) ex_store) = Send (JObj [(''id'', JNum 9)])"
proof -
  have a: "query ex_env 0 (plain (\<lambda>s. ([], s))) ex_store = Inr ([], ex_store)"
    by (simp add: query_def plain_def ex_env_def)
  have b: "query (ex_env_fault 0) 0 (plain (insert_Player (body (ex_request [])))) ex_store =
     Inl (StoreError ''connection terminated'')"
    by (simp add: query_def ex_env_fault_def)
  have c: "fst (createPlayer ex_env (ex_request []) ex_store) = Send (JObj [(''id'', JNum 9)])"
    by (simp add: createPlayer_def createPlayer_db_eq then_catch_def id_row_def ex_defs)
  show ?thesis
    using a b c
      createPlayer_never_404 [of ex_env "ex_request []" ex_store 0 "plain (\<lambda>s. ([], s))" "[]" ex_store]
      createPlayer_never_404 [of "ex_env_fault 0" "ex_request []" ex_store 0
        "plain (insert_Player (body (ex_request [])))" _ _ "StoreError ''connection terminated''"]
    by simp
qed

section \<open>The two transactional deletes\<close>

text \<open>
  C8: when the store rejects either statement of a delete transaction (or refuses the
  identifier), and more generally whenever the transaction rejects, the store is left as
  it was before the request: neither the PlayerGame rows nor the parent row are deleted.
  The response is the error handler's, status 500 with one fixed body, whatever the error.
\<close>

theorem delete_failure_rolls_back:
  "(fault e 0 \<noteq> None \<or> fault e 1 \<noteq> None \<or> int4in e (params_id rq) = None \<longrightarrow>
      deletePlayer e rq s =
        (StatusJson 500 (JObj [(''error'', JStr ''An internal server error occurred'')]), s) \<and>
      deleteGame e rq s =
        (StatusJson 500 (JObj [(''error'', JStr ''An internal server error occurred'')]), s)) \<and>
   (deletePlayer_db e rq s = (Inl err, s') \<longrightarrow>
      s' = s \<and>
      deletePlayer e rq s =
        (StatusJson 500 (JObj [(''error'', JStr ''An internal server error occurred'')]), s)) \<and>
   (deleteGame_db e rq s = (Inl err, s') \<longrightarrow>
      s' = s \<and>
      deleteGame e rq s =
        (StatusJson 500 (JObj [(''error'', JStr ''An internal server error occurred'')]), s)) \<and>
   errorHandler err =
     StatusJson 500 (JObj [(''error'', JStr ''An internal server error occurred'')])"
proof -
  have p: "deletePlayer e rq s =
        (StatusJson 500 (JObj [(''error'', JStr ''An internal server error occurred'')]), s)"
    if "fault e 0 \<noteq> None \<or> fault e 1 \<noteq> None \<or> int4in e (params_id rq) = None"
    using that
    by (auto simp: deletePlayer_def deletePlayer_db_eq then_catch_def errorHandler_def
        split: option.splits)
  have g: "deleteGame e rq s =
        (StatusJson 500 (JObj [(''error'', JStr ''An internal server error occurred'')]), s)"
    if "fault e 0 \<noteq> None \<or> fault e 1 \<noteq> None \<or> int4in e (params_id rq) = None"
    using that
    by (auto simp: deleteGame_def deleteGame_db_eq then_catch_def errorHandler_def
        split: option.splits)
  have p': "s' = s \<and> deletePlayer e rq s =
        (StatusJson 500 (JObj [(''error'', JStr ''An internal server error occurred'')]), s)"
    if "deletePlayer_db e rq s = (Inl err, s')"
  proof -
    have "s' = s"
      using that by (auto simp: deletePlayer_db_def db_tx_def split: prod.splits sum.splits)
    with that show ?thesis
      by (simp add: deletePlayer_def then_catch_def errorHandler_def)
  qed
  have g': "s' = s \<and> deleteGame e rq s =
        (StatusJson 500 (JObj [(''error'', JStr ''An internal server error occurred'')]), s)"
    if "deleteGame_db e rq s = (Inl err, s')"
  proof -
    have "s' = s"
      using that by (auto simp: deleteGame_db_def db_tx_def split: prod.splits sum.splits)
    with that show ?thesis
      by (simp add: deleteGame_def then_catch_def errorHandler_def)
  qed
  show ?thesis
    using p g p' g' by (simp add: errorHandler_def)
qed

theorem delete_failure_rolls_back_witness:
  "fault (ex_env_fault 1) 1 \<noteq> None \<and>
   deletePlayer (ex_env_fault 1) (ex_request ''7'') ex_store =
     (StatusJson 500 (JObj [(''error'', JStr ''An internal server error occurred'')]), ex_store) \<and>
   deleteGame (ex_env_fault 1) (ex_request ''7'') ex_store =
     (StatusJson 500 (JObj [(''error'', JStr ''An internal server error occurred'')]), ex_store) \<and>
   db_none (ex_env_fault 1) 0
       (with_id (ex_env_fault 1) ''7'' delete_PlayerGame_by_playerID) ex_store =
     (Inr JNull, ex_store\<lparr>PlayerGame := [\<lparr>gameID = 9, playerID = 8, score = 50\<rparr>]\<rparr>) \<and>
   deletePlayer_db ex_env (ex_request ''7'')
       (ex_store\<lparr>Player := \<lparr>player_id = 7, player_name = [], player_email = []\<rparr> # Player ex_store\<rparr>) =
     (Inl (QueryResultError multiple),
      ex_store\<lparr>Player := \<lparr>player_id = 7, player_name = [], player_email = []\<rparr> # Player ex_store\<rparr>)"
proof -
  have a: "fault (ex_env_fault 1) 1 \<noteq> None"
    by (simp add: ex_env_fault_def)
  have b: "db_none (ex_env_fault 1) 0
       (with_id (ex_env_fault 1) ''7'' delete_PlayerGame_by_playerID) ex_store =
     (Inr JNull, ex_store\<lparr>PlayerGame := [\<lparr>gameID = 9, playerID = 8, score = 50\<rparr>]\<rparr>)"
    by (simp add: driver_defs delete_PlayerGame_by_playerID_def ex_defs)
  have c: "deletePlayer_db ex_env (ex_request ''7'')
       (ex_store\<lparr>Player := \<lparr>player_id = 7, player_name = [], player_email = []\<rparr> # Player ex_store\<rparr>) =
     (Inl (QueryResultError multiple),
      ex_store\<lparr>Player := \<lparr>player_id = 7, player_name = [], player_email = []\<rparr> # Player ex_store\<rparr>)"
    by (simp add: deletePlayer_db_eq ex_defs)
  show ?thesis
    using a b c
      delete_failure_rolls_back [of "ex_env_fault 1" "ex_request ''7''" ex_store]
    by simp
qed

lemma filter_absent: "k \<notin> set (map f xs) \<Longrightarrow> filter (\<lambda>x. f x = k) xs = []"
  by (induction xs) auto

lemma filter_absent_neq: "k \<notin> set (map f xs) \<Longrightarrow> filter (\<lambda>x. f x \<noteq> k) xs = xs"
  by (induction xs) auto

text \<open>
  C2 (as amended): when the parent delete matches no row (and the store rejects neither
  statement), the transaction commits: the store after the request is the store before
  it without the PlayerGame rows of that identifier, and the response is
  \<open>sendStatus(404)\<close>, status 404 with the status text \<open>Not Found\<close> as its body.
  Delete-game does the same with the game identifier.
\<close>

theorem delete_absent_parent_commits:
  assumes "fault e 0 = None" and "fault e 1 = None" and "int4in e (params_id rq) = Some i"
  shows "(i \<notin> set (map player_id (Player s)) \<longrightarrow>
            deletePlayer e rq s =
              (SendStatus 404,
               s\<lparr>PlayerGame := filter (\<lambda>r. playerID r \<noteq> i) (PlayerGame s)\<rparr>) \<and>
            status (fst (deletePlayer e rq s)) = 404 \<and>
            response_body (fst (deletePlayer e rq s)) = Some (Text ''Not Found'')) \<and>
         (i \<notin> set (map game_id (Game s)) \<longrightarrow>
            deleteGame e rq s =
              (SendStatus 404,
               s\<lparr>PlayerGame := filter (\<lambda>r. gameID r \<noteq> i) (PlayerGame s)\<rparr>) \<and>
            status (fst (deleteGame e rq s)) = 404 \<and>
            response_body (fst (deleteGame e rq s)) = Some (Text ''Not Found''))"
proof -
  have player: "deletePlayer e rq s =
      (SendStatus 404, s\<lparr>PlayerGame := filter (\<lambda>r. playerID r \<noteq> i) (PlayerGame s)\<rparr>)"
    if "i \<notin> set (map player_id (Player s))"
  proof -
    from that have "filter (\<lambda>p. player_id p = i) (Player s) = []"
      and "filter (\<lambda>p. player_id p \<noteq> i) (Player s) = Player s"
      by (rule filter_absent, rule filter_absent_neq)
    with assms show ?thesis
      by (simp add: deletePlayer_def deletePlayer_db_eq then_catch_def returnDataOr404_def)
  qed
  have game: "deleteGame e rq s =
      (SendStatus 404, s\<lparr>PlayerGame := filter (\<lambda>r. gameID r \<noteq> i) (PlayerGame s)\<rparr>)"
    if "i \<notin> set (map game_id (Game s))"
  proof -
    from that have "filter (\<lambda>g. game_id g = i) (Game s) = []"
      and "filter (\<lambda>g. game_id g \<noteq> i) (Game s) = Game s"
      by (rule filter_absent, rule filter_absent_neq)
    with assms show ?thesis
      by (simp add: deleteGame_def deleteGame_db_eq then_catch_def returnDataOr404_def)
  qed
  show ?thesis
    using player game by simp
qed

text \<open>
  C2 as stated fails: the body of the not-found response is not empty.
\<close>

theorem delete_absent_parent_body_not_empty:
  "7 \<notin> set (map player_id (Player (ex_store\<lparr>Player := []\<rparr>))) \<and>
   fst (deletePlayer ex_env (ex_request ''7'') (ex_store\<lparr>Player := []\<rparr>)) = SendStatus 404 \<and>
   response_body (fst (deletePlayer ex_env (ex_request ''7'') (ex_store\<lparr>Player := []\<rparr>))) =
     Some (Text ''Not Found'') \<and>
   response_body (fst (deletePlayer ex_env (ex_request ''7'') (ex_store\<lparr>Player := []\<rparr>))) \<noteq>
     Some (Text [])"
  by (simp add: deletePlayer_def deletePlayer_db_eq then_catch_def returnDataOr404_def ex_defs)

theorem delete_absent_parent_commits_witness:
  "fault ex_env 0 = None \<and> fault ex_env 1 = None \<and>
   int4in ex_env (params_id (ex_request ''7'')) = Some 7 \<and>
   7 \<notin> set (map player_id (Player (ex_store\<lparr>Player := []\<rparr>))) \<and>
   deletePlayer ex_env (ex_request ''7'') (ex_store\<lparr>Player := []\<rparr>) =
     (SendStatus 404,
      ex_store\<lparr>Player := [], PlayerGame := [\<lparr>gameID = 9, playerID = 8, score = 50\<rparr>]\<rparr>) \<and>
   7 \<notin> set (map game_id (Game (ex_store\<lparr>Game := []\<rparr>))) \<and>
   deleteGame ex_env (ex_request ''7'') (ex_store\<lparr>Game := []\<rparr>) =
     (SendStatus 404,
      ex_store\<lparr>Game := [], PlayerGame := [\<lparr>gameID = 9, playerID = 8, score = 50\<rparr>,
                                            \<lparr>gameID = 9, playerID = 7, score = 20\<rparr>]\<rparr>)"
proof -
  have a: "fault ex_env 0 = None" "fault ex_env 1 = None"
    "int4in ex_env (params_id (ex_request ''7'')) = Some 7"
    by (simp_all add: ex_defs)
  show ?thesis
    using a delete_absent_parent_commits [OF a, of "ex_store\<lparr>Player := []\<rparr>"]
      delete_absent_parent_commits [OF a, of "ex_store\<lparr>Game := []\<rparr>"]
    by (simp add: ex_store_def)
qed

lemma no_orphans_same_keys:
  assumes "no_orphans s"
    and "set (PlayerGame t) \<subseteq> set (PlayerGame s)"
    and "set (map player_id (Player s)) \<subseteq> set (map player_id (Player t))"
    and "set (map game_id (Game s)) \<subseteq> set (map game_id (Game t))"
  shows "no_orphans t"
  using assms unfolding no_orphans_def by blast

lemma no_orphans_delete_player:
  assumes "no_orphans s"
  shows "no_orphans (s\<lparr>PlayerGame := filter (\<lambda>r. playerID r \<noteq> i) (PlayerGame s),
                        Player := filter (\<lambda>p. player_id p \<noteq> i) (Player s)\<rparr>)"
  using assms unfolding no_orphans_def by auto

lemma no_orphans_delete_game:
  assumes "no_orphans s"
  shows "no_orphans (s\<lparr>PlayerGame := filter (\<lambda>r. gameID r \<noteq> i) (PlayerGame s),
                        Game := filter (\<lambda>g. game_id g \<noteq> i) (Game s)\<rparr>)"
  using assms unfolding no_orphans_def by auto

lemma deletePlayer_store:
  "snd (deletePlayer e rq s) =
     (if status (fst (deletePlayer e rq s)) = 500 then s
      else case int4in e (params_id rq) of
             None \<Rightarrow> s
           | Some i \<Rightarrow>
               s\<lparr>PlayerGame := filter (\<lambda>r. playerID r \<noteq> i) (PlayerGame s),
                 Player := filter (\<lambda>p. player_id p \<noteq> i) (Player s)\<rparr>)"
  by (simp add: deletePlayer_def deletePlayer_db_eq then_catch_def returnDataOr404_def
      errorHandler_def id_row_def split: option.splits list.splits)

lemma deleteGame_store:
  "snd (deleteGame e rq s) =
     (if status (fst (deleteGame e rq s)) = 500 then s
      else case int4in e (params_id rq) of
             None \<Rightarrow> s
           | Some i \<Rightarrow>
               s\<lparr>PlayerGame := filter (\<lambda>r. gameID r \<noteq> i) (PlayerGame s),
                 Game := filter (\<lambda>g. game_id g \<noteq> i) (Game s)\<rparr>)"
  by (simp add: deleteGame_def deleteGame_db_eq then_catch_def returnDataOr404_def
      errorHandler_def id_row_def split: option.splits list.splits)

lemma no_orphans_deletePlayer: "no_orphans s \<Longrightarrow> no_orphans (snd (deletePlayer e rq s))"
  by (simp add: deletePlayer_store no_orphans_delete_player split: option.splits)

lemma no_orphans_deleteGame: "no_orphans s \<Longrightarrow> no_orphans (snd (deleteGame e rq s))"
  by (simp add: deleteGame_store no_orphans_delete_game split: option.splits)

lemma update_keeps_ids:
  "set (map player_id
          (filter (\<lambda>p. player_id p \<noteq> i) ps @
           map (\<lambda>p. p\<lparr>player_email := x, player_name := y\<rparr>)
             (filter (\<lambda>p. player_id p = i) ps))) = set (map player_id ps)"
  by (induction ps) auto

lemma updatePlayer_store:
  "snd (updatePlayer e rq s) = s \<or>
   (\<exists>i. int4in e (params_id rq) = Some i \<and>
      snd (updatePlayer e rq s) =
        s\<lparr>Player :=
            filter (\<lambda>p. player_id p \<noteq> i) (Player s) @
            map (\<lambda>p. p\<lparr>player_email := email (body rq), player_name := name (body rq)\<rparr>)
              (filter (\<lambda>p. player_id p = i) (Player s))\<rparr>)"
  by (simp add: updatePlayer_def updatePlayer_db_eq then_catch_def
      split: option.splits list.splits)

lemma no_orphans_updatePlayer:
  assumes "no_orphans s"
  shows "no_orphans (snd (updatePlayer e rq s))"
  using updatePlayer_store [of e rq s]
proof (elim disjE exE conjE)
  assume "snd (updatePlayer e rq s) = s"
  with assms show ?thesis by simp
next
  fix i
  assume eq: "snd (updatePlayer e rq s) =
        s\<lparr>Player :=
            filter (\<lambda>p. player_id p \<noteq> i) (Player s) @
            map (\<lambda>p. p\<lparr>player_email := email (body rq), player_name := name (body rq)\<rparr>)
              (filter (\<lambda>p. player_id p = i) (Player s))\<rparr>"
  show ?thesis
  proof (rule no_orphans_same_keys [OF assms])
    show "set (PlayerGame (snd (updatePlayer e rq s))) \<subseteq> set (PlayerGame s)"
      by (simp add: eq)
    show "set (map game_id (Game s)) \<subseteq> set (map game_id (Game (snd (updatePlayer e rq s))))"
      by (simp add: eq)
    have "Player (snd (updatePlayer e rq s)) =
        filter (\<lambda>p. player_id p \<noteq> i) (Player s) @
        map (\<lambda>p. p\<lparr>player_email := email (body rq), player_name := name (body rq)\<rparr>)
          (filter (\<lambda>p. player_id p = i) (Player s))"
      by (simp add: eq)
    then show "set (map player_id (Player s)) \<subseteq>
        set (map player_id (Player (snd (updatePlayer e rq s))))"
      by (simp only: update_keeps_ids subset_refl)
  qed
qed

lemma no_orphans_createPlayer: "no_orphans s \<Longrightarrow> no_orphans (snd (createPlayer e rq s))"
  by (auto simp: createPlayer_def createPlayer_db_eq then_catch_def no_orphans_def
      split: option.splits)

lemma reads_keep_store:
  "snd (readHello e rq s) = s" "snd (readPlayers e rq s) = s" "snd (readPlayer e rq s) = s"
  "snd (readGames e rq s) = s" "snd (readGamePlayers e rq s) = s"
  by (simp_all add: readHello_def readPlayers_def readPlayers_db_eq readPlayer_def
      readPlayer_db_eq readGames_def readGames_db_eq readGamePlayers_def
      readGamePlayers_db_eq then_catch_def split: option.splits list.splits)

lemma no_orphans_router: "no_orphans s \<Longrightarrow> no_orphans (snd (router r e rq s))"
  by (cases r)
    (simp_all add: reads_keep_store no_orphans_deletePlayer no_orphans_deleteGame
      no_orphans_updatePlayer no_orphans_createPlayer)

lemma no_orphans_reachable:
  assumes "reachable s0 s" and "no_orphans s0"
  shows "no_orphans s"
  using assms by (induction rule: reachable.induct) (simp_all add: no_orphans_router)

text \<open>
  C1: a delete-player or delete-game request either leaves the store as it was (the
  response is then the 500 of the error handler) or removes, together, every PlayerGame
  row of the given identifier and the parent rows of that identifier; after a delete that
  did not fail no PlayerGame row and no parent row carries the identifier. Hence a store
  without orphaned PlayerGame rows stays without them in every state the service reaches,
  whatever the requests.
\<close>

theorem deletes_leave_no_orphans:
  assumes "no_orphans s0" and "reachable s0 s"
  shows "no_orphans s \<and>
         no_orphans (snd (deletePlayer e rq s)) \<and>
         no_orphans (snd (deleteGame e rq s)) \<and>
         (status (fst (deletePlayer e rq s)) = 500 \<longrightarrow> snd (deletePlayer e rq s) = s) \<and>
         (status (fst (deleteGame e rq s)) = 500 \<longrightarrow> snd (deleteGame e rq s) = s) \<and>
         (status (fst (deletePlayer e rq s)) \<noteq> 500 \<longrightarrow>
            (\<exists>i. int4in e (params_id rq) = Some i \<and>
               snd (deletePlayer e rq s) =
                 s\<lparr>PlayerGame := filter (\<lambda>r. playerID r \<noteq> i) (PlayerGame s),
                   Player := filter (\<lambda>p. player_id p \<noteq> i) (Player s)\<rparr> \<and>
               i \<notin> set (map playerID (PlayerGame (snd (deletePlayer e rq s)))) \<and>
               i \<notin> set (map player_id (Player (snd (deletePlayer e rq s)))))) \<and>
         (status (fst (deleteGame e rq s)) \<noteq> 500 \<longrightarrow>
            (\<exists>i. int4in e (params_id rq) = Some i \<and>
               snd (deleteGame e rq s) =
                 s\<lparr>PlayerGame := filter (\<lambda>r. gameID r \<noteq> i) (PlayerGame s),
                   Game := filter (\<lambda>g. game_id g \<noteq> i) (Game s)\<rparr> \<and>
               i \<notin> set (map gameID (PlayerGame (snd (deleteGame e rq s)))) \<and>
               i \<notin> set (map game_id (Game (snd (deleteGame e rq s))))))"
proof -
  have inv: "no_orphans s"
    using assms by (simp add: no_orphans_reachable)
  have p500: "status (fst (deletePlayer e rq s)) = 500 \<longrightarrow> snd (deletePlayer e rq s) = s"
    using deletePlayer_store [of e rq s] by simp
  have g500: "status (fst (deleteGame e rq s)) = 500 \<longrightarrow> snd (deleteGame e rq s) = s"
    using deleteGame_store [of e rq s] by simp
  have p: "\<exists>i. int4in e (params_id rq) = Some i \<and>
               snd (deletePlayer e rq s) =
                 s\<lparr>PlayerGame := filter (\<lambda>r. playerID r \<noteq> i) (PlayerGame s),
                   Player := filter (\<lambda>p. player_id p \<noteq> i) (Player s)\<rparr> \<and>
               i \<notin> set (map playerID (PlayerGame (snd (deletePlayer e rq s)))) \<and>
               i \<notin> set (map player_id (Player (snd (deletePlayer e rq s))))"
    if ok: "status (fst (deletePlayer e rq s)) \<noteq> 500"
  proof (cases "int4in e (params_id rq)")
    case None
    then have "status (fst (deletePlayer e rq s)) = 500"
      by (simp add: deletePlayer_def deletePlayer_db_eq then_catch_def errorHandler_def
          split: option.splits)
    with ok show ?thesis by simp
  next
    case (Some i)
    with ok deletePlayer_store [of e rq s] show ?thesis by auto
  qed
  have g: "\<exists>i. int4in e (params_id rq) = Some i \<and>
               snd (deleteGame e rq s) =
                 s\<lparr>PlayerGame := filter (\<lambda>r. gameID r \<noteq> i) (PlayerGame s),
                   Game := filter (\<lambda>g. game_id g \<noteq> i) (Game s)\<rparr> \<and>
               i \<notin> set (map gameID (PlayerGame (snd (deleteGame e rq s)))) \<and>
               i \<notin> set (map game_id (Game (snd (deleteGame e rq s))))"
    if ok: "status (fst (deleteGame e rq s)) \<noteq> 500"
  proof (cases "int4in e (params_id rq)")
    case None
    then have "status (fst (deleteGame e rq s)) = 500"
      by (simp add: deleteGame_def deleteGame_db_eq then_catch_def errorHandler_def
          split: option.splits)
    with ok show ?thesis by simp
  next
    case (Some i)
    with ok deleteGame_store [of e rq s] show ?thesis by auto
  qed
  show ?thesis
    using inv no_orphans_deletePlayer [OF inv] no_orphans_deleteGame [OF inv] p500 g500 p g
    by blast
qed

theorem deletes_leave_no_orphans_witness:
  "no_orphans ex_store \<and>
   reachable ex_store (snd (router DELETE_games_id ex_env (ex_request ''9'') ex_store)) \<and>
   snd (router DELETE_games_id ex_env (ex_request ''9'') ex_store) =
     ex_store\<lparr>Game := [\<lparr>game_id = 7\<rparr>],
               PlayerGame := [\<lparr>gameID = 7, playerID = 7, score = 0\<rparr>]\<rparr> \<and>
   deletePlayer ex_env (ex_request ''7'')
       (ex_store\<lparr>Game := [\<lparr>game_id = 7\<rparr>],
                 PlayerGame := [\<lparr>gameID = 7, playerID = 7, score = 0\<rparr>]\<rparr>) =
     (Send (JObj [(''id'', JNum 7)]),
      ex_store\<lparr>Player := [\<lparr>player_id = 8, player_name = ''Bob'', player_email = ''bob@x.org''\<rparr>],
               Game := [\<lparr>game_id = 7\<rparr>], PlayerGame := []\<rparr>) \<and>
   no_orphans
     (ex_store\<lparr>Player := [\<lparr>player_id = 8, player_name = ''Bob'', player_email = ''bob@x.org''\<rparr>],
               Game := [\<lparr>game_id = 7\<rparr>], PlayerGame := []\<rparr>)"
proof -
  have a: "no_orphans ex_store"
    by (simp add: no_orphans_def ex_store_def)
  have b: "reachable ex_store (snd (router DELETE_games_id ex_env (ex_request ''9'') ex_store))"
    by (rule reachable.request) (rule reachable.start)
  have c: "snd (router DELETE_games_id ex_env (ex_request ''9'') ex_store) =
     ex_store\<lparr>Game := [\<lparr>game_id = 7\<rparr>],
               PlayerGame := [\<lparr>gameID = 7, playerID = 7, score = 0\<rparr>]\<rparr>"
    by (simp add: deleteGame_def deleteGame_db_eq then_catch_def returnDataOr404_def ex_defs)
  have d: "deletePlayer ex_env (ex_request ''7'')
       (ex_store\<lparr>Game := [\<lparr>game_id = 7\<rparr>],
                 PlayerGame := [\<lparr>gameID = 7, playerID = 7, score = 0\<rparr>]\<rparr>) =
     (Send (JObj [(''id'', JNum 7)]),
      ex_store\<lparr>Player := [\<lparr>player_id = 8, player_name = ''Bob'', player_email = ''bob@x.org''\<rparr>],
               Game := [\<lparr>game_id = 7\<rparr>], PlayerGame := []\<rparr>)"
    by (simp add: deletePlayer_def deletePlayer_db_eq then_catch_def returnDataOr404_def
        id_row_def ex_defs)
  show ?thesis
    using a b c d
      deletes_leave_no_orphans [OF a b, of ex_env "ex_request ''7''"]
    by simp
qed

section \<open>Reading and updating one player\<close>

lemma filter_key_single:
  "distinct (map f xs) \<Longrightarrow> x \<in> set xs \<Longrightarrow> filter (\<lambda>y. f y = f x) xs = [x]"
proof (induction xs)
  case Nil
  then show ?case by simp
next
  case (Cons a xs)
  show ?case
  proof (cases "a = x")
    case True
    with Cons.prems have "f x \<notin> set (map f xs)" by simp
    then have "filter (\<lambda>y. f y = f x) xs = []" by (rule filter_absent)
    with True show ?thesis by simp
  next
    case False
    with Cons.prems have "x \<in> set xs" and "f a \<noteq> f x" and "distinct (map f xs)"
      by (auto simp: image_iff)
    with Cons.IH show ?thesis by simp
  qed
qed

text \<open>
  C4 (as amended): where the identifiers of the Player table are a primary key and the
  store accepts the statement, GET /players/:id sends the row whose identifier matches
  when there is one and answers \<open>sendStatus(404)\<close>, status 404 with the status text
  \<open>Not Found\<close> as its body, when there is none. The 404 comes from the query resolving
  to \<open>null\<close> and from nothing else: a rejected query always goes to the error handler
  and gives status 500.
\<close>

theorem readPlayer_row_or_404:
  assumes "fault e 0 = None" and "int4in e (params_id rq) = Some i"
    and "distinct (map player_id (Player s))"
  shows "(\<forall>p \<in> set (Player s). player_id p = i \<longrightarrow>
            readPlayer e rq s = (Send (player_row p), s)) \<and>
         (i \<notin> set (map player_id (Player s)) \<longrightarrow>
            readPlayer_db e rq s = (Inr JNull, s) \<and>
            readPlayer e rq s = (SendStatus 404, s) \<and>
            response_body (fst (readPlayer e rq s)) = Some (Text ''Not Found'')) \<and>
         (status (fst (readPlayer e' rq' s')) = 404 \<longleftrightarrow>
            readPlayer_db e' rq' s' = (Inr JNull, s')) \<and>
         (readPlayer_db e' rq' s' = (Inl err, t) \<longrightarrow>
            readPlayer e' rq' s' =
              (StatusJson 500 (JObj [(''error'', JStr ''An internal server error occurred'')]), s'))"
proof (intro conjI ballI impI)
  fix p
  assume "p \<in> set (Player s)" and "player_id p = i"
  with assms(3) have "filter (\<lambda>y. player_id y = i) (Player s) = [p]"
    using filter_key_single [of player_id "Player s" p] by simp
  with assms(1,2) show "readPlayer e rq s = (Send (player_row p), s)"
    by (simp add: readPlayer_def readPlayer_db_eq then_catch_def returnDataOr404_def
        player_row_def)
next
  assume "i \<notin> set (map player_id (Player s))"
  then have none: "filter (\<lambda>y. player_id y = i) (Player s) = []"
    by (rule filter_absent)
  with assms(1,2) show "readPlayer_db e rq s = (Inr JNull, s)"
    by (simp add: readPlayer_db_eq)
  then show r: "readPlayer e rq s = (SendStatus 404, s)"
    by (simp add: readPlayer_def then_catch_def returnDataOr404_def)
  show "response_body (fst (readPlayer e rq s)) = Some (Text ''Not Found'')"
    by (simp add: r)
next
  show "status (fst (readPlayer e' rq' s')) = 404 \<longleftrightarrow>
      readPlayer_db e' rq' s' = (Inr JNull, s')"
    by (simp add: readPlayer_def readPlayer_db_eq then_catch_def returnDataOr404_def
        errorHandler_def player_row_def split: option.splits list.splits)
next
  assume "readPlayer_db e' rq' s' = (Inl err, t)"
  then show "readPlayer e' rq' s' =
      (StatusJson 500 (JObj [(''error'', JStr ''An internal server error occurred'')]), s')"
    by (auto simp: readPlayer_def readPlayer_db_eq then_catch_def errorHandler_def
        split: option.splits list.splits)
qed

text \<open>
  C4 as stated fails: the body of the 404 response is not empty.
\<close>

theorem readPlayer_404_body_not_empty:
  "3 \<notin> set (map player_id (Player ex_store)) \<and>
   fst (readPlayer ex_env (ex_request ''3'') ex_store) = SendStatus 404 \<and>
   response_body (fst (readPlayer ex_env (ex_request ''3'') ex_store)) =
     Some (Text ''Not Found'') \<and>
   response_body (fst (readPlayer ex_env (ex_request ''3'') ex_store)) \<noteq> Some (Text [])"
  by (simp add: readPlayer_def readPlayer_db_eq then_catch_def returnDataOr404_def ex_defs)

theorem readPlayer_row_or_404_witness:
  "fault ex_env 0 = None \<and> int4in ex_env (params_id (ex_request ''7'')) = Some 7 \<and>
   int4in ex_env (params_id (ex_request ''3'')) = Some 3 \<and>
   distinct (map player_id (Player ex_store)) \<and>
   readPlayer ex_env (ex_request ''7'') ex_store =
     (Send (JObj [(''id'', JNum 7), (''name'', JStr ''Ann''), (''email'', JStr ''ann@x.org'')]),
      ex_store) \<and>
   3 \<notin> set (map player_id (Player ex_store)) \<and>
   readPlayer ex_env (ex_request ''3'') ex_store = (SendStatus 404, ex_store) \<and>
   readPlayer_db ex_env (ex_request ''x'') ex_store =
     (Inl (StoreError ''invalid input syntax for type integer''), ex_store) \<and>
   status (fst (readPlayer ex_env (ex_request ''x'') ex_store)) = 500"
proof -
  have a: "fault ex_env 0 = None" by (simp add: ex_defs)
  have b: "int4in ex_env (params_id (ex_request ''7'')) = Some 7"
    "int4in ex_env (params_id (ex_request ''3'')) = Some 3"
    by (simp_all add: ex_defs)
  have c: "distinct (map player_id (Player ex_store))" by (simp add: ex_defs)
  have d: "readPlayer_db ex_env (ex_request ''x'') ex_store =
     (Inl (StoreError ''invalid input syntax for type integer''), ex_store)"
    by (simp add: readPlayer_db_eq ex_defs)
  show ?thesis
    using a b c d
      readPlayer_row_or_404 [OF a b(1) c]
      readPlayer_row_or_404 [OF a b(2) c, of ex_env "ex_request ''x''" ex_store]
    by (simp add: ex_store_def player_row_def)
qed

lemma mset_update_rows:
  "mset (filter (\<lambda>p. player_id p \<noteq> i) ps @ map f (filter (\<lambda>p. player_id p = i) ps)) =
   mset (map (\<lambda>p. if player_id p = i then f p else p) ps)"
  by (induction ps) simp_all

lemma update_same_ids:
  "map player_id (map (\<lambda>p. if player_id p = i
      then p\<lparr>player_email := x, player_name := y\<rparr> else p) ps) = map player_id ps"
  by (induction ps) simp_all

text \<open>
  C5: where the identifiers of the Player table are a primary key and the store accepts
  the statement, PUT /players/:id with an identifier that matches a row sends that
  identifier and leaves a store that differs from the old one only in the name and the
  email of that one row: exactly one row has the identifier before and after, and the
  row after is the row before with the name and the email of the body; the rows of
  every other identifier are the same rows, each as often as before; the other tables
  and the sequence are unchanged. Nothing is said of the order of the table. With an
  identifier that matches no row the response is \<open>sendStatus(404)\<close> and the store is the
  one before the request.
\<close>

theorem updatePlayer_changes_name_and_email_only:
  assumes "fault e 0 = None" and "int4in e (params_id rq) = Some i"
    and "distinct (map player_id (Player s))"
  shows "(i \<in> set (map player_id (Player s)) \<longrightarrow>
            fst (updatePlayer e rq s) = Send (JObj [(''id'', JNum i)]) \<and>
            (\<exists>p. filter (\<lambda>p. player_id p = i) (Player s) = [p] \<and>
                 filter (\<lambda>p. player_id p = i) (Player (snd (updatePlayer e rq s))) =
                   [p\<lparr>player_email := email (body rq), player_name := name (body rq)\<rparr>]) \<and>
            mset (filter (\<lambda>p. player_id p \<noteq> i) (Player (snd (updatePlayer e rq s)))) =
              mset (filter (\<lambda>p. player_id p \<noteq> i) (Player s)) \<and>
            mset (Player (snd (updatePlayer e rq s))) =
              mset (map (\<lambda>p. if player_id p = i
                   then p\<lparr>player_email := email (body rq), player_name := name (body rq)\<rparr>
                   else p) (Player s)) \<and>
            mset (map player_id (Player (snd (updatePlayer e rq s)))) =
              mset (map player_id (Player s)) \<and>
            Game (snd (updatePlayer e rq s)) = Game s \<and>
            PlayerGame (snd (updatePlayer e rq s)) = PlayerGame s \<and>
            Player_id_seq (snd (updatePlayer e rq s)) = Player_id_seq s) \<and>
         (i \<notin> set (map player_id (Player s)) \<longrightarrow>
            updatePlayer e rq s = (SendStatus 404, s))"
proof (intro conjI impI)
  assume "i \<notin> set (map player_id (Player s))"
  then have none: "filter (\<lambda>y. player_id y = i) (Player s) = []"
    and rest: "filter (\<lambda>y. player_id y \<noteq> i) (Player s) = Player s"
    by (rule filter_absent, rule filter_absent_neq)
  with assms(1,2) show "updatePlayer e rq s = (SendStatus 404, s)"
    by (simp add: updatePlayer_def updatePlayer_db_eq then_catch_def returnDataOr404_def)
next
  assume "i \<in> set (map player_id (Player s))"
  then obtain p where p: "p \<in> set (Player s)" "player_id p = i" by auto
  with assms(3) have one: "filter (\<lambda>y. player_id y = i) (Player s) = [p]"
    using filter_key_single [of player_id "Player s" p] by simp
  define p' where "p' = p\<lparr>player_email := email (body rq), player_name := name (body rq)\<rparr>"
  have id': "player_id p' = i"
    by (simp add: p'_def p(2))
  from one assms(1,2) have upd: "updatePlayer e rq s =
      (Send (JObj [(''id'', JNum i)]),
       s\<lparr>Player := filter (\<lambda>p. player_id p \<noteq> i) (Player s) @ [p']\<rparr>)"
    by (simp add: updatePlayer_def updatePlayer_db_eq then_catch_def returnDataOr404_def
        id_row_def p'_def)
  have table: "Player (snd (updatePlayer e rq s)) =
      filter (\<lambda>p. player_id p \<noteq> i) (Player s) @ [p']"
    by (simp add: upd)
  show "fst (updatePlayer e rq s) = Send (JObj [(''id'', JNum i)])"
    by (simp add: upd)
  have "filter (\<lambda>p. player_id p = i) (Player (snd (updatePlayer e rq s))) = [p']"
    by (simp add: table id')
  with one show "\<exists>p. filter (\<lambda>p. player_id p = i) (Player s) = [p] \<and>
      filter (\<lambda>p. player_id p = i) (Player (snd (updatePlayer e rq s))) =
        [p\<lparr>player_email := email (body rq), player_name := name (body rq)\<rparr>]"
    by (simp add: p'_def)
  show "mset (filter (\<lambda>p. player_id p \<noteq> i) (Player (snd (updatePlayer e rq s)))) =
      mset (filter (\<lambda>p. player_id p \<noteq> i) (Player s))"
    by (simp add: table id')
  have "Player (snd (updatePlayer e rq s)) =
      filter (\<lambda>p. player_id p \<noteq> i) (Player s) @
      map (\<lambda>p. p\<lparr>player_email := email (body rq), player_name := name (body rq)\<rparr>)
        (filter (\<lambda>p. player_id p = i) (Player s))"
    by (simp add: table one p'_def)
  then show all: "mset (Player (snd (updatePlayer e rq s))) =
      mset (map (\<lambda>p. if player_id p = i
           then p\<lparr>player_email := email (body rq), player_name := name (body rq)\<rparr>
           else p) (Player s))"
    by (simp only: mset_update_rows)
  from all have "image_mset player_id (mset (Player (snd (updatePlayer e rq s)))) =
      image_mset player_id (mset (map (\<lambda>p. if player_id p = i
           then p\<lparr>player_email := email (body rq), player_name := name (body rq)\<rparr>
           else p) (Player s)))"
    by (rule arg_cong)
  then show "mset (map player_id (Player (snd (updatePlayer e rq s)))) =
      mset (map player_id (Player s))"
    by (simp only: mset_map [symmetric] update_same_ids)
  show "Game (snd (updatePlayer e rq s)) = Game s"
    by (simp add: upd)
  show "PlayerGame (snd (updatePlayer e rq s)) = PlayerGame s"
    by (simp add: upd)
  show "Player_id_seq (snd (updatePlayer e rq s)) = Player_id_seq s"
    by (simp add: upd)
qed

theorem updatePlayer_changes_name_and_email_only_witness:
  "fault ex_env 0 = None \<and> int4in ex_env (params_id (ex_request ''7'')) = Some 7 \<and>
   int4in ex_env (params_id (ex_request ''3'')) = Some 3 \<and>
   distinct (map player_id (Player ex_store)) \<and>
   7 \<in> set (map player_id (Player ex_store)) \<and>
   3 \<notin> set (map player_id (Player ex_store)) \<and>
   updatePlayer ex_env (ex_request ''7'') ex_store =
     (Send (JObj [(''id'', JNum 7)]),
      ex_store\<lparr>Player :=
        [\<lparr>player_id = 8, player_name = ''Bob'', player_email = ''bob@x.org''\<rparr>,
         \<lparr>player_id = 7, player_name = ''Eve'', player_email = ''eve@x.org''\<rparr>]\<rparr>) \<and>
   filter (\<lambda>p. player_id p = 7)
       (Player (snd (updatePlayer ex_env (ex_request ''7'') ex_store))) =
     [\<lparr>player_id = 7, player_name = ''Eve'', player_email = ''eve@x.org''\<rparr>] \<and>
   mset (filter (\<lambda>p. player_id p \<noteq> 7)
       (Player (snd (updatePlayer ex_env (ex_request ''7'') ex_store)))) =
     mset [\<lparr>player_id = 8, player_name = ''Bob'', player_email = ''bob@x.org''\<rparr>] \<and>
   updatePlayer ex_env (ex_request ''3'') ex_store = (SendStatus 404, ex_store)"
proof -
  have a: "fault ex_env 0 = None" by (simp add: ex_defs)
  have b: "int4in ex_env (params_id (ex_request ''7'')) = Some 7"
    "int4in ex_env (params_id (ex_request ''3'')) = Some 3"
    by (simp_all add: ex_defs)
  have c: "distinct (map player_id (Player ex_store))" by (simp add: ex_defs)
  have d: "updatePlayer ex_env (ex_request ''7'') ex_store =
     (Send (JObj [(''id'', JNum 7)]),
      ex_store\<lparr>Player :=
        [\<lparr>player_id = 8, player_name = ''Bob'', player_email = ''bob@x.org''\<rparr>,
         \<lparr>player_id = 7, player_name = ''Eve'', player_email = ''eve@x.org''\<rparr>]\<rparr>)"
    by (simp add: updatePlayer_def updatePlayer_db_eq then_catch_def returnDataOr404_def
        id_row_def ex_defs)
  show ?thesis
    using a b c d
      updatePlayer_changes_name_and_email_only [OF a b(1) c]
      updatePlayer_changes_name_and_email_only [OF a b(2) c]
    by (simp add: ex_store_def)
qed

section \<open>Listing games and players\<close>

text \<open>
  C6: when the store accepts the statement, GET /games sends all the rows of the Game
  table, each once, in ascending order of identifier, whatever the order of the table;
  GET /players sends the Player rows in the order of the table.
\<close>

theorem readGames_ordered_by_id:
  assumes "fault e 0 = None"
  shows "(\<exists>gs. readGames e rq s = (Send (JArr (map game_row gs)), s) \<and>
               mset gs = mset (Game s) \<and> sorted (map game_id gs)) \<and>
         (fault e' 0 = None \<longrightarrow>
            readPlayers e' rq s = (Send (JArr (map player_row (Player s))), s))"
proof -
  have "readGames e rq s = (Send (JArr (map game_row (sort_key game_id (Game s)))), s)"
    using assms by (simp add: readGames_def readGames_db_eq then_catch_def)
  moreover have "mset (sort_key game_id (Game s)) = mset (Game s)"
    by simp
  moreover have "sorted (map game_id (sort_key game_id (Game s)))"
    by simp
  moreover have "fault e' 0 = None \<longrightarrow>
      readPlayers e' rq s = (Send (JArr (map player_row (Player s))), s)"
    by (simp add: readPlayers_def readPlayers_db_eq then_catch_def)
  ultimately show ?thesis by blast
qed

theorem readGames_ordered_by_id_witness:
  "fault ex_env 0 = None \<and>
   Game ex_store = [\<lparr>game_id = 9\<rparr>, \<lparr>game_id = 7\<rparr>] \<and>
   readGames ex_env (ex_request []) ex_store =
     (Send (JArr [JObj [(''id'', JNum 7)], JObj [(''id'', JNum 9)]]), ex_store) \<and>
   (\<exists>gs. readGames ex_env (ex_request []) ex_store = (Send (JArr (map game_row gs)), ex_store) \<and>
         mset gs = mset (Game ex_store) \<and> sorted (map game_id gs))"
proof -
  have a: "fault ex_env 0 = None" by (simp add: ex_defs)
  have b: "readGames ex_env (ex_request []) ex_store =
     (Send (JArr [JObj [(''id'', JNum 7)], JObj [(''id'', JNum 9)]]), ex_store)"
    by (simp add: readGames_def readGames_db_eq then_catch_def game_row_def ex_defs)
  show ?thesis
    using a b readGames_ordered_by_id [OF a, of "ex_request []" ex_store]
    by (simp add: ex_store_def)
qed

section \<open>Inserting a player\<close>

text \<open>
  C7: when the store accepts the statement, POST /players appends exactly one row to the
  Player table, with the name and the email of the body and with the identifier the
  store's sequence gives; the other rows and tables are unchanged, and the response
  sends that identifier. The identifier does not depend on the request.
\<close>

theorem createPlayer_inserts_one_row:
  assumes "fault e 0 = None"
  shows "fst (createPlayer e rq s) = Send (JObj [(''id'', JNum (Player_id_seq s))]) \<and>
         Player (snd (createPlayer e rq s)) =
           Player s @ [\<lparr>player_id = Player_id_seq s, player_name = name (body rq),
                        player_email = email (body rq)\<rparr>] \<and>
         Game (snd (createPlayer e rq s)) = Game s \<and>
         PlayerGame (snd (createPlayer e rq s)) = PlayerGame s \<and>
         fst (createPlayer e rq' s) = fst (createPlayer e rq s)"
  using assms
  by (simp add: createPlayer_def createPlayer_db_eq then_catch_def id_row_def)

theorem createPlayer_inserts_one_row_witness:
  "fault ex_env 0 = None \<and>
   createPlayer ex_env (ex_request ''7'') ex_store =
     (Send (JObj [(''id'', JNum 9)]),
      ex_store\<lparr>Player := Player ex_store @
                 [\<lparr>player_id = 9, player_name = ''Eve'', player_email = ''eve@x.org''\<rparr>],
               Player_id_seq := 10\<rparr>) \<and>
   Player (snd (createPlayer ex_env (ex_request ''7'') ex_store)) =
     [\<lparr>player_id = 7, player_name = ''Ann'', player_email = ''ann@x.org''\<rparr>,
      \<lparr>player_id = 8, player_name = ''Bob'', player_email = ''bob@x.org''\<rparr>,
      \<lparr>player_id = 9, player_name = ''Eve'', player_email = ''eve@x.org''\<rparr>]"
proof -
  have a: "fault ex_env 0 = None" by (simp add: ex_defs)
  have b: "createPlayer ex_env (ex_request ''7'') ex_store =
     (Send (JObj [(''id'', JNum 9)]),
      ex_store\<lparr>Player := Player ex_store @
                 [\<lparr>player_id = 9, player_name = ''Eve'', player_email = ''eve@x.org''\<rparr>],
               Player_id_seq := 10\<rparr>)"
    by (simp add: createPlayer_def createPlayer_db_eq then_catch_def id_row_def ex_defs)
  show ?thesis
    using a b createPlayer_inserts_one_row [OF a, of "ex_request ''7''" ex_store]
    by (simp add: ex_defs)
qed

section \<open>The players of a game\<close>

lemma join_rows:
  "rp \<in> set (join_PlayerGame_Player s) \<Longrightarrow>
     fst rp \<in> set (PlayerGame s) \<and> snd rp \<in> set (Player s) \<and>
     player_id (snd rp) = playerID (fst rp)"
  by (auto simp: join_PlayerGame_Player_def)

lemma map_fst_concat_single:
  "\<forall>r \<in> set rs. length (F r) = 1 \<Longrightarrow>
     map fst (concat (map (\<lambda>r. map (\<lambda>p. (r, p)) (F r)) rs)) = rs"
proof (induction rs)
  case Nil
  then show ?case by simp
next
  case (Cons r rs)
  then have "length (F r) = 1" by simp
  then obtain p where "F r = [p]"
    by (cases "F r") simp_all
  with Cons show ?case by simp
qed

lemma join_fst:
  assumes "distinct (map player_id (Player s))"
    and "\<forall>r \<in> set (PlayerGame s). playerID r \<in> set (map player_id (Player s))"
  shows "map fst (join_PlayerGame_Player s) = PlayerGame s"
  unfolding join_PlayerGame_Player_def
proof (rule map_fst_concat_single, rule ballI)
  fix r
  assume "r \<in> set (PlayerGame s)"
  with assms(2) obtain p where "p \<in> set (Player s)" and "player_id p = playerID r"
    by auto
  with assms(1) have "filter (\<lambda>y. player_id y = playerID r) (Player s) = [p]"
    using filter_key_single [of player_id "Player s" p] by simp
  then show "length (filter (\<lambda>p. player_id p = playerID r) (Player s)) = 1"
    by simp
qed

lemma readGamePlayers_eq:
  assumes "fault e 0 = None" and "int4in e (params_id rq) = Some g"
  shows "readGamePlayers e rq s =
     (Send (JArr (map game_player_row
        (sort_key (\<lambda>rp. playerID (fst rp))
           (filter (\<lambda>rp. gameID (fst rp) = g) (join_PlayerGame_Player s))))), s)"
  using assms by (simp add: readGamePlayers_def readGamePlayers_db_eq then_catch_def)

lemma readGamePlayers_not_404: "status (fst (readGamePlayers e rq s)) \<noteq> 404"
  by (simp add: readGamePlayers_def readGamePlayers_db_eq then_catch_def errorHandler_def
      split: option.splits)

text \<open>
  C3: where the player identifiers are a primary key, no PlayerGame row is orphaned and
  the store accepts the statement, GET /games/:id sends one entry for each PlayerGame row
  of that game: the entries pair each such row, once, with the Player row of its player
  identifier and carry that player's identifier, name and email and the row's score, in
  ascending order of player identifier. When no PlayerGame row has the game identifier,
  in particular when no such game exists, the response sends the empty list. The
  response never has status 404.
\<close>

theorem readGamePlayers_one_entry_per_row:
  assumes "fault e 0 = None" and "int4in e (params_id rq) = Some g"
    and "distinct (map player_id (Player s))" and "no_orphans s"
  shows "(\<exists>rps.
            readGamePlayers e rq s =
              (Send (JArr (map (\<lambda>rp.
                 JObj [(''id'', JNum (player_id (snd rp))),
                       (''name'', JStr (player_name (snd rp))),
                       (''email'', JStr (player_email (snd rp))),
                       (''score'', JNum (score (fst rp)))]) rps)), s) \<and>
            mset (map fst rps) = mset (filter (\<lambda>r. gameID r = g) (PlayerGame s)) \<and>
            (\<forall>rp \<in> set rps. snd rp \<in> set (Player s) \<and> player_id (snd rp) = playerID (fst rp)) \<and>
            sorted (map (\<lambda>rp. player_id (snd rp)) rps)) \<and>
         (filter (\<lambda>r. gameID r = g) (PlayerGame s) = [] \<longrightarrow>
            readGamePlayers e rq s = (Send (JArr []), s)) \<and>
         (g \<notin> set (map game_id (Game s)) \<longrightarrow>
            readGamePlayers e rq s = (Send (JArr []), s)) \<and>
         status (fst (readGamePlayers e' rq' s')) \<noteq> 404"
proof -
  define sel where "sel = filter (\<lambda>rp. gameID (fst rp) = g) (join_PlayerGame_Player s)"
  define rps where "rps = sort_key (\<lambda>rp. playerID (fst rp)) sel"
  have refs: "\<forall>r \<in> set (PlayerGame s). playerID r \<in> set (map player_id (Player s))"
    using assms(4) by (simp add: no_orphans_def)
  have resp: "readGamePlayers e rq s = (Send (JArr (map game_player_row rps)), s)"
    using readGamePlayers_eq [OF assms(1,2)] by (simp add: rps_def sel_def)
  have row: "game_player_row = (\<lambda>rp.
      JObj [(''id'', JNum (player_id (snd rp))), (''name'', JStr (player_name (snd rp))),
            (''email'', JStr (player_email (snd rp))), (''score'', JNum (score (fst rp)))])"
    by (rule ext) (simp add: game_player_row_def)
  have "map fst sel = filter (\<lambda>r. gameID r = g) (map fst (join_PlayerGame_Player s))"
    by (simp add: sel_def filter_map o_def)
  then have fst_sel: "map fst sel = filter (\<lambda>r. gameID r = g) (PlayerGame s)"
    by (simp only: join_fst [OF assms(3) refs])
  have "mset (map fst rps) = mset (map fst sel)"
    by (simp add: rps_def)
  with fst_sel have rows: "mset (map fst rps) = mset (filter (\<lambda>r. gameID r = g) (PlayerGame s))"
    by simp
  have joined: "\<forall>rp \<in> set rps. snd rp \<in> set (Player s) \<and> player_id (snd rp) = playerID (fst rp)"
    using join_rows by (auto simp: rps_def sel_def)
  then have eq: "map (\<lambda>rp. player_id (snd rp)) rps = map (\<lambda>rp. playerID (fst rp)) rps"
    by simp
  have "sorted (map (\<lambda>rp. playerID (fst rp)) rps)"
    unfolding rps_def by (rule sorted_sort_key)
  then have ordered: "sorted (map (\<lambda>rp. player_id (snd rp)) rps)"
    by (simp only: eq)
  have empty: "readGamePlayers e rq s = (Send (JArr []), s)"
    if "filter (\<lambda>r. gameID r = g) (PlayerGame s) = []"
  proof -
    from that fst_sel have "sel = []" by simp
    with resp show ?thesis by (simp add: rps_def)
  qed
  have absent: "readGamePlayers e rq s = (Send (JArr []), s)"
    if "g \<notin> set (map game_id (Game s))"
  proof -
    from that assms(4) have "\<forall>r \<in> set (PlayerGame s). gameID r \<noteq> g"
      by (auto simp: no_orphans_def)
    then have "filter (\<lambda>r. gameID r = g) (PlayerGame s) = []"
      by (simp add: filter_empty_conv)
    then show ?thesis by (rule empty)
  qed
  from resp rows joined ordered
  have "\<exists>rps.
            readGamePlayers e rq s =
              (Send (JArr (map (\<lambda>rp.
                 JObj [(''id'', JNum (player_id (snd rp))),
                       (''name'', JStr (player_name (snd rp))),
                       (''email'', JStr (player_email (snd rp))),
                       (''score'', JNum (score (fst rp)))]) rps)), s) \<and>
            mset (map fst rps) = mset (filter (\<lambda>r. gameID r = g) (PlayerGame s)) \<and>
            (\<forall>rp \<in> set rps. snd rp \<in> set (Player s) \<and> player_id (snd rp) = playerID (fst rp)) \<and>
            sorted (map (\<lambda>rp. player_id (snd rp)) rps)"
    unfolding row by blast
  with empty absent readGamePlayers_not_404 show ?thesis
    by blast
qed

theorem readGamePlayers_one_entry_per_row_witness:
  "fault ex_env 0 = None \<and> int4in ex_env (params_id (ex_request ''9'')) = Some 9 \<and>
   int4in ex_env (params_id (ex_request ''3'')) = Some 3 \<and>
   distinct (map player_id (Player ex_store)) \<and> no_orphans ex_store \<and>
   readGamePlayers ex_env (ex_request ''9'') ex_store =
     (Send (JArr
        [JObj [(''id'', JNum 7), (''name'', JStr ''Ann''), (''email'', JStr ''ann@x.org''),
               (''score'', JNum 20)],
         JObj [(''id'', JNum 8), (''name'', JStr ''Bob''), (''email'', JStr ''bob@x.org''),
               (''score'', JNum 50)]]), ex_store) \<and>
   3 \<notin> set (map game_id (Game ex_store)) \<and>
   readGamePlayers ex_env (ex_request ''3'') ex_store = (Send (JArr []), ex_store)"
proof -
  have a: "fault ex_env 0 = None" by (simp add: ex_defs)
  have b: "int4in ex_env (params_id (ex_request ''9'')) = Some 9"
    "int4in ex_env (params_id (ex_request ''3'')) = Some 3"
    by (simp_all add: ex_defs)
  have c: "distinct (map player_id (Player ex_store))" by (simp add: ex_defs)
  have d: "no_orphans ex_store" by (simp add: no_orphans_def ex_store_def)
  have f: "readGamePlayers ex_env (ex_request ''9'') ex_store =
     (Send (JArr
        [JObj [(''id'', JNum 7), (''name'', JStr ''Ann''), (''email'', JStr ''ann@x.org''),
               (''score'', JNum 20)],
         JObj [(''id'', JNum 8), (''name'', JStr ''Bob''), (''email'', JStr ''bob@x.org''),
               (''score'', JNum 50)]]), ex_store)"
    by (simp add: readGamePlayers_eq [OF a b(1)] join_PlayerGame_Player_def
        game_player_row_def ex_store_def)
  have g: "3 \<notin> set (map game_id (Game ex_store))" by (simp add: ex_store_def)
  show ?thesis
    using a b c d f g
      readGamePlayers_one_entry_per_row [OF a b(1) c d]
      readGamePlayers_one_entry_per_row [OF a b(2) c d]
    by simp
qed

end
